theory Spec2Isabelle
  imports Main "HOL-Library.Sublist"
begin

section \<open>Strings\<close>

text \<open>
  The plugin is TypeScript. A JavaScript string is a sequence of UTF-16 code units; it is
  modelled as the list of their numeric values, so that the Chinese literals of the source
  can be written down code unit by code unit. ASCII text is written as a HOL string and
  converted with \<open>ascii\<close>.
\<close>

type_synonym jsstring = "nat list"

definition ascii :: "string \<Rightarrow> jsstring" where
  "ascii = map of_char"

text \<open>\<open>s.includes(p)\<close>: \<open>p\<close> occurs in \<open>s\<close> as a contiguous run.\<close>

definition js_includes :: "jsstring \<Rightarrow> jsstring \<Rightarrow> bool" where
  "js_includes s p \<longleftrightarrow> sublist p s"

text \<open>
  \<open>s.trim()\<close> strips the WhiteSpace and LineTerminator code units of ECMAScript from both
  ends: TAB, LF, VT, FF, CR, SP, NBSP, U+1680, U+2000 to U+200A, U+2028, U+2029, U+202F,
  U+205F, U+3000 and U+FEFF.
\<close>

definition isWhite :: "nat \<Rightarrow> bool" where
  "isWhite c \<longleftrightarrow>
     c \<in> set [0x09, 0x0A, 0x0B, 0x0C, 0x0D, 0x20, 0xA0, 0x1680, 0x2028, 0x2029,
              0x202F, 0x205F, 0x3000, 0xFEFF]
     \<or> (0x2000 \<le> c \<and> c \<le> 0x200A)"

definition trim :: "jsstring \<Rightarrow> jsstring" where
  "trim s = rev (dropWhile isWhite (rev (dropWhile isWhite s)))"

text \<open>\<open>xs.join(sep)\<close> of an array of strings.\<close>

fun join :: "jsstring \<Rightarrow> jsstring list \<Rightarrow> jsstring" where
  "join sep [] = []"
| "join sep [x] = x"
| "join sep (x # y # ys) = x @ sep @ join sep (y # ys)"

text \<open>A number inside a template literal: its decimal digits.\<close>

fun decimal :: "nat \<Rightarrow> jsstring" where
  "decimal n = (if n < 10 then [48 + n] else decimal (n div 10) @ [48 + n mod 10])"

declare decimal.simps [simp del]

subsection \<open>The literals of the source\<close>

text \<open>The two direction tokens (horizontal: U+6A2A U+5411, vertical: U+7EB5 U+5411).\<close>

definition horizontal :: jsstring where
  "horizontal = [0x6A2A, 0x5411]"

definition vertical :: jsstring where
  "vertical = [0x7EB5, 0x5411]"

text \<open>The completion keyword (U+5B8C U+6210).\<close>

definition doneKeyword :: jsstring where
  "doneKeyword = [0x5B8C, 0x6210]"

text \<open>The reply of the command to a direction that is neither token.\<close>

definition badDirectionMsg :: jsstring where
  "badDirectionMsg =
     [0x62FC, 0x63A5, 0x65B9, 0x5411, 0x53EA, 0x80FD, 0x662F, 0x20, 0x22, 0x6A2A, 0x5411,
      0x22, 0x20, 0x6216, 0x20, 0x22, 0x7EB5, 0x5411, 0x22, 0x3002]"

text \<open>The confirmation the command returns: send images, then the keyword, or wait.\<close>

definition promptMsg :: jsstring where
  "promptMsg =
     [0x8BF7, 0x53D1, 0x9001, 0x56FE, 0x7247, 0x3002, 0x5F53, 0x56FE, 0x7247, 0x53D1,
      0x9001, 0x5B8C, 0x6210, 0x540E, 0xFF0C, 0x8BF7, 0x8F93, 0x5165, 0x20, 0x22, 0x5B8C,
      0x6210, 0x22, 0x20, 0x6216, 0x7B49, 0x5F85, 0x8D85, 0x65F6, 0x81EA, 0x52A8, 0x62FC,
      0x63A5, 0x3002]"

text \<open>The status message: a prefix, the running total in decimal, a suffix.\<close>

definition statusMsg :: "nat \<Rightarrow> jsstring" where
  "statusMsg totalImages =
     [0x5DF2, 0x83B7, 0x53D6, 0x20] @ decimal totalImages @ [0x20, 0x5F20, 0x56FE, 0x7247, 0x3002]"

text \<open>The message asking for at least two images.\<close>

definition needTwoMsg :: jsstring where
  "needTwoMsg =
     [0x8BF7, 0x63D0, 0x4F9B, 0x81F3, 0x5C11, 0x4E24, 0x5F20, 0x56FE, 0x7247, 0x8FDB,
      0x884C, 0x62FC, 0x63A5, 0x3002]"

text \<open>The generic failure message.\<close>

definition failureMsg :: jsstring where
  "failureMsg =
     [0x62FC, 0x63A5, 0x56FE, 0x7247, 0x65F6, 0x53D1, 0x751F, 0x9519, 0x8BEF, 0xFF0C,
      0x8BF7, 0x7A0D, 0x540E, 0x518D, 0x8BD5, 0x3002]"

text \<open>The message of the error thrown when every attempt was used up.\<close>

definition maxRetriesMsg :: jsstring where
  "maxRetriesMsg =
     [0x5B, 0x62FC, 0x56FE, 0x5D, 0x20, 0x8FBE, 0x5230, 0x6700, 0x5927, 0x91CD, 0x8BD5,
      0x6B21, 0x6570, 0xFF0C, 0x4ECD, 0x65E0, 0x6CD5, 0x6E32, 0x67D3, 0x56FE, 0x7247]"

definition connectionClosedMsg :: jsstring where
  "connectionClosedMsg = ascii ''Connection closed''"

definition maxRetries :: nat where
  "maxRetries = 3"

definition retryDelayMs :: nat where
  "retryDelayMs = 1000"

section \<open>The HTML of the composite\<close>

text \<open>
  \<open>generateHtmlForImages\<close> builds the style block with a template literal (line breaks
  and indentation as in the source), one \<open>img\<close> tag for each URL, joined by the empty
  string, and the document around both.
\<close>

definition style :: "jsstring \<Rightarrow> jsstring" where
  "style direction =
     ascii ''\<newline>      <style>\<newline>        body {\<newline>          margin: 0;\<newline>          display: flex;\<newline>          flex-direction: ''
     @ (if direction = horizontal then ascii ''row'' else ascii ''column'')
     @ ascii '';\<newline>        }\<newline>        img {\<newline>          display: block;\<newline>        }\<newline>      </style>\<newline>    ''"

definition imgTag :: "jsstring \<Rightarrow> jsstring" where
  "imgTag url = ascii ''<img src=\"'' @ url @ ascii ''\">''"

definition generateHtmlForImages :: "jsstring list \<Rightarrow> jsstring \<Rightarrow> jsstring" where
  "generateHtmlForImages imageUrls direction =
     (let imagesHtml = join [] (map imgTag imageUrls)
      in ascii ''<html><head>'' @ style direction @ ascii ''</head><body>'' @ imagesHtml
         @ ascii ''</body></html>'')"

section \<open>Rendering with retries\<close>

text \<open>
  \<open>stitchImages\<close> talks to the rendering engine, which is outside the program. What the
  engine does on one attempt is an input of the model: the request for a page is rejected,
  or the page is there and one of the awaited calls on it is rejected, or every call
  resolves and the screenshot is taken. A rejection carries the message of its error.
\<close>

type_synonym buffer = "nat list"

datatype pageCall = SetContent | Evaluate | Screenshot | Close

datatype attempt =
    PageRejected jsstring
  | CallRejected pageCall jsstring
  | Captured buffer

text \<open>
  What the program does to the engine and the clock, in order. The page of attempt \<open>i\<close> is
  named \<open>i\<close>: every call of \<open>ctx.puppeteer.page()\<close> gives a new page.
\<close>

datatype event =
    PageRequested nat
  | PageOpened nat
  | DefaultTimeoutSet nat nat
  | ContentSet nat jsstring
  | PageClosed nat
  | Slept nat

text \<open>
  The body of the \<open>try\<close> block for attempt \<open>i\<close>: the events up to the return or the
  rejection, and the screenshot or the message caught. \<open>page.close()\<close> is the last
  statement before the return, so it is reached only when every earlier call resolved.
\<close>

fun tryBlock :: "attempt \<Rightarrow> jsstring \<Rightarrow> nat \<Rightarrow> event list \<times> (jsstring + buffer)" where
  "tryBlock (PageRejected msg) html i = ([PageRequested i], Inl msg)"
| "tryBlock (CallRejected SetContent msg) html i =
     ([PageRequested i, PageOpened i, DefaultTimeoutSet i 30000], Inl msg)"
| "tryBlock (CallRejected c msg) html i =
     ([PageRequested i, PageOpened i, DefaultTimeoutSet i 30000, ContentSet i html], Inl msg)"
| "tryBlock (Captured screenshot) html i =
     ([PageRequested i, PageOpened i, DefaultTimeoutSet i 30000, ContentSet i html,
       PageClosed i],
      Inr screenshot)"

text \<open>
  The loop \<open>for (attempt = 0; attempt < maxRetries; attempt++)\<close> with its \<open>catch\<close>: a message
  that includes \<open>Connection closed\<close> is followed by the delay and the next round, any
  other message is thrown again; after the loop the terminal error is thrown.
\<close>

function attempts :: "(nat \<Rightarrow> attempt) \<Rightarrow> jsstring \<Rightarrow> nat \<Rightarrow> event list \<times> (jsstring + buffer)" where
  "attempts engine html attempt =
     (if attempt < maxRetries then
        (case tryBlock (engine attempt) html attempt of
           (evs, Inr screenshot) \<Rightarrow> (evs, Inr screenshot)
         | (evs, Inl msg) \<Rightarrow>
             if js_includes msg connectionClosedMsg then
               (case attempts engine html (Suc attempt) of
                  (evs', r) \<Rightarrow> (evs @ [Slept retryDelayMs] @ evs', r))
             else (evs, Inl msg))
      else ([], Inl maxRetriesMsg))"
  by pat_completeness auto
termination
  by (relation "measure (\<lambda>(engine, html, attempt). maxRetries - attempt)") auto

declare attempts.simps [simp del]

definition stitchImages ::
  "(nat \<Rightarrow> attempt) \<Rightarrow> jsstring list \<Rightarrow> jsstring \<Rightarrow> event list \<times> (jsstring + buffer)" where
  "stitchImages engine imageUrls direction =
     attempts engine (generateHtmlForImages imageUrls direction) 0"

text \<open>Readings of the event list of one call.\<close>

definition failure :: "attempt \<Rightarrow> jsstring option" where
  "failure a =
     (case a of PageRejected msg \<Rightarrow> Some msg | CallRejected c msg \<Rightarrow> Some msg
      | Captured screenshot \<Rightarrow> None)"

definition transient :: "attempt \<Rightarrow> bool" where
  "transient a =
     (case failure a of None \<Rightarrow> False | Some msg \<Rightarrow> js_includes msg connectionClosedMsg)"

fun isRequest :: "event \<Rightarrow> bool" where
  "isRequest (PageRequested i) = True"
| "isRequest e = False"

definition attemptsMade :: "event list \<Rightarrow> nat" where
  "attemptsMade evs = length (filter isRequest evs)"

fun sleeps :: "event list \<Rightarrow> nat list" where
  "sleeps [] = []"
| "sleeps (Slept ms # evs) = ms # sleeps evs"
| "sleeps (e # evs) = sleeps evs"

section \<open>Sessions, timers and messages\<close>

text \<open>
  \<open>userImages\<close> maps a user id to an object with the direction, the images and the optional
  \<open>processing\<close> flag (\<open>None\<close> is the absent field). \<open>stitchAndSendImages\<close> keeps a
  reference to that object across its \<open>await\<close>s while the command may put another object
  under the same key, so objects live in a store of their own and \<open>userImages\<close> holds
  addresses.
\<close>

record collection =
  direction :: jsstring
  images :: "jsstring list"
  processing :: "bool option"

text \<open>What \<open>session.send\<close> is given: a text, or the image element of type image/png.\<close>

datatype payload = Text jsstring | Png buffer

text \<open>
  \<open>timeout\<close> is the timer table of the source. \<open>scheduled\<close> is the timer queue of the
  runtime: the handles whose callback has neither run nor been cleared, each with the user
  of the session its callback closes over and its delay. \<open>sent\<close> lists the calls of
  \<open>session.send\<close> (which is taken to resolve), \<open>stitched\<close> the calls of \<open>stitchImages\<close>
  with their arguments. The logger is left out: it changes nothing the program reads.
\<close>

record state =
  objects :: "nat \<rightharpoonup> collection"
  nextObject :: nat
  userImages :: "jsstring \<rightharpoonup> nat"
  timeout :: "jsstring \<rightharpoonup> nat"
  scheduled :: "nat \<rightharpoonup> jsstring \<times> nat"
  nextTimer :: nat
  sent :: "(jsstring \<times> payload) list"
  stitched :: "(jsstring list \<times> jsstring) list"

definition initial :: state where
  "initial =
     \<lparr>objects = Map.empty, nextObject = 0, userImages = Map.empty, timeout = Map.empty,
      scheduled = Map.empty, nextTimer = 0, sent = [], stitched = []\<rparr>"

text \<open>\<open>userImages[session.userId]\<close>: the object under the key, with its address.\<close>

definition userImageData :: "state \<Rightarrow> jsstring \<Rightarrow> (nat \<times> collection) option" where
  "userImageData s userId =
     (case userImages s userId of
        None \<Rightarrow> None
      | Some r \<Rightarrow> (case objects s r of None \<Rightarrow> None | Some c \<Rightarrow> Some (r, c)))"

definition send :: "jsstring \<Rightarrow> payload \<Rightarrow> state \<Rightarrow> state" where
  "send userId p s = s\<lparr>sent := sent s @ [(userId, p)]\<rparr>"

text \<open>\<open>clearTimeout(h)\<close>; an undefined handle clears nothing.\<close>

definition clearTimeout :: "nat option \<Rightarrow> state \<Rightarrow> state" where
  "clearTimeout h s =
     (case h of None \<Rightarrow> s | Some t \<Rightarrow> s\<lparr>scheduled := (scheduled s)(t := None)\<rparr>)"

text \<open>\<open>setTimeout(callback, ms)\<close>, the callback being \<open>stitchAndSendImages\<close> for the user.\<close>

definition setTimeout :: "jsstring \<Rightarrow> nat \<Rightarrow> state \<Rightarrow> nat \<times> state" where
  "setTimeout userId ms s =
     (nextTimer s,
      s\<lparr>scheduled := (scheduled s)(nextTimer s \<mapsto> (userId, ms)), nextTimer := Suc (nextTimer s)\<rparr>)"

subsection \<open>The command\<close>

text \<open>
  The action of the command with its optional direction (vertical when absent): the
  string it returns and the state after it.
\<close>

definition command :: "jsstring \<Rightarrow> jsstring option \<Rightarrow> state \<Rightarrow> jsstring \<times> state" where
  "command userId arg s =
     (let dir = (case arg of None \<Rightarrow> vertical | Some d \<Rightarrow> d)
      in if dir \<noteq> horizontal \<and> dir \<noteq> vertical then (badDirectionMsg, s)
         else (promptMsg,
               s\<lparr>objects := (objects s)(nextObject s \<mapsto>
                                \<lparr>direction = dir, images = [], processing = None\<rparr>),
                 nextObject := Suc (nextObject s),
                 userImages := (userImages s)(userId \<mapsto> nextObject s)\<rparr>))"

subsection \<open>Stitching and sending\<close>

text \<open>
  \<open>stitchAndSendImages\<close> is asynchronous. Each definition below is one stretch of it that
  runs without interruption; between two stretches other tasks may run. The first
  stretch ends with the function returned, or waiting for the send of the notice (holding
  the object), or waiting for \<open>stitchImages\<close>, which was called with the images and the
  direction read at that moment.
\<close>

datatype waiting = Returned | AwaitNotice nat | AwaitStitch "jsstring list" jsstring

definition stitchAndSendImages_enter :: "jsstring \<Rightarrow> state \<Rightarrow> state \<times> waiting" where
  "stitchAndSendImages_enter userId s =
     (case userImageData s userId of
        None \<Rightarrow> (s, Returned)
      | Some (r, c) \<Rightarrow>
          if processing c = Some True then (s, Returned)
          else
            (let s1 = s\<lparr>objects := (objects s)(r \<mapsto> c\<lparr>processing := Some True\<rparr>)\<rparr>
             in if length (images c) < 2 then (send userId (Text needTwoMsg) s1, AwaitNotice r)
                else (s1\<lparr>stitched := stitched s1 @ [(images c, direction c)]\<rparr>,
                      AwaitStitch (images c) (direction c))))"

text \<open>After the notice is sent: \<open>userImageData.processing = false\<close> on the object held.\<close>

definition stitchAndSendImages_noticed :: "nat \<Rightarrow> state \<Rightarrow> state" where
  "stitchAndSendImages_noticed r s =
     (case objects s r of
        None \<Rightarrow> s
      | Some c \<Rightarrow> s\<lparr>objects := (objects s)(r \<mapsto> c\<lparr>processing := Some False\<rparr>)\<rparr>)"

text \<open>
  After \<open>stitchImages\<close> has settled: the image is sent, or the \<open>catch\<close> block sends the
  failure message.
\<close>

definition stitchAndSendImages_settled :: "jsstring \<Rightarrow> jsstring + buffer \<Rightarrow> state \<Rightarrow> state" where
  "stitchAndSendImages_settled userId result s =
     (case result of
        Inr stitchedImageBuffer \<Rightarrow> send userId (Png stitchedImageBuffer) s
      | Inl msg \<Rightarrow> send userId (Text failureMsg) s)"

text \<open>The \<open>finally\<close> block: both entries of the user are deleted.\<close>

definition stitchAndSendImages_finally :: "jsstring \<Rightarrow> state \<Rightarrow> state" where
  "stitchAndSendImages_finally userId s =
     s\<lparr>userImages := (userImages s)(userId := None), timeout := (timeout s)(userId := None)\<rparr>"

text \<open>The whole call when no other task runs in between, the engine behaving as given.\<close>

definition stitchAndSendImages :: "(nat \<Rightarrow> attempt) \<Rightarrow> jsstring \<Rightarrow> state \<Rightarrow> state" where
  "stitchAndSendImages engine userId s =
     (case stitchAndSendImages_enter userId s of
        (s1, Returned) \<Rightarrow> s1
      | (s1, AwaitNotice r) \<Rightarrow> stitchAndSendImages_noticed r s1
      | (s1, AwaitStitch imageUrls dir) \<Rightarrow>
          stitchAndSendImages_finally userId
            (stitchAndSendImages_settled userId (snd (stitchImages engine imageUrls dir)) s1))"

subsection \<open>The middleware\<close>

text \<open>
  The first stretch of the middleware, up to the status message: \<open>None\<close> is \<open>next()\<close>.
  \<open>select\<close> stands for \<open>h.select(content, 'img').map(img => img.attrs.src)\<close> of the
  framework, the \<open>src\<close> attributes of the image elements of a message in their order.
\<close>

definition middleware_receive ::
  "(jsstring \<Rightarrow> jsstring list) \<Rightarrow> jsstring \<Rightarrow> jsstring \<Rightarrow> state \<Rightarrow> state option" where
  "middleware_receive select userId content s =
     (case userImageData s userId of
        None \<Rightarrow> None
      | Some (r, c) \<Rightarrow>
          (let imgs = select content;
               c1 = c\<lparr>images := images c @ imgs\<rparr>;
               s1 = s\<lparr>objects := (objects s)(r \<mapsto> c1)\<rparr>
           in Some (if 0 < length imgs
                    then send userId (Text (statusMsg (length (images c1)))) s1 else s1)))"

text \<open>The timer is cleared and set again, 10 seconds ahead.\<close>

definition middleware_schedule :: "jsstring \<Rightarrow> state \<Rightarrow> state" where
  "middleware_schedule userId s =
     (case setTimeout userId 10000 (clearTimeout (timeout s userId) s) of
        (t, s1) \<Rightarrow> s1\<lparr>timeout := (timeout s1)(userId \<mapsto> t)\<rparr>)"

text \<open>
  The middleware on one message when no other task runs in between. On the keyword
  the stitching comes first and \<open>clearTimeout\<close> after it.
\<close>

definition middleware ::
  "(nat \<Rightarrow> attempt) \<Rightarrow> (jsstring \<Rightarrow> jsstring list) \<Rightarrow> jsstring \<Rightarrow> jsstring \<Rightarrow> state \<Rightarrow> state" where
  "middleware engine select userId content s =
     (case middleware_receive select userId content s of
        None \<Rightarrow> s
      | Some s1 \<Rightarrow>
          if trim content = doneKeyword then
            (let s2 = stitchAndSendImages engine userId s1
             in clearTimeout (timeout s2 userId) s2)
          else middleware_schedule userId s1)"

text \<open>
  A timer runs out: its callback runs if it is still scheduled, and enters
  \<open>stitchAndSendImages\<close> for its user.
\<close>

definition expire :: "nat \<Rightarrow> state \<Rightarrow> state \<times> waiting" where
  "expire t s =
     (case scheduled s t of
        None \<Rightarrow> (s, Returned)
      | Some (userId, ms) \<Rightarrow>
          stitchAndSendImages_enter userId (s\<lparr>scheduled := (scheduled s)(t := None)\<rparr>))"


subsection \<open>Concrete inputs\<close>

text \<open>
  An engine that loses its connection on the first two attempts and captures on the third,
  one that always loses it, one that fails otherwise, and one that captures at once.
\<close>

definition flaky :: "nat \<Rightarrow> attempt" where
  "flaky i =
     (if i < 2 then CallRejected Screenshot (ascii ''Protocol error: Connection closed.'')
      else Captured [137, 80, 78, 71])"

definition offline :: "nat \<Rightarrow> attempt" where
  "offline i = PageRejected (ascii ''Connection closed'')"

definition broken :: "nat \<Rightarrow> attempt" where
  "broken i = CallRejected Evaluate (ascii ''Timeout'')"

definition steady :: "nat \<Rightarrow> attempt" where
  "steady i = Captured [137, 80, 78, 71]"

text \<open>A user, three image messages with their \<open>src\<close> attributes, and the keyword message.\<close>

definition alice :: jsstring where
  "alice = ascii ''10001''"

definition oneImage :: jsstring where
  "oneImage = ascii ''<img src=\"a\"/>''"

definition twoImages :: jsstring where
  "twoImages = ascii ''<img src=\"b\"/><img src=\"c\"/>''"

definition threeImages :: jsstring where
  "threeImages = ascii ''<img src=\"a\"/><img src=\"b\"/><img src=\"c\"/>''"

definition srcs :: "jsstring \<Rightarrow> jsstring list" where
  "srcs content =
     (if content = oneImage then [ascii ''a'']
      else if content = twoImages then [ascii ''b'', ascii ''c'']
      else if content = threeImages then [ascii ''a'', ascii ''b'', ascii ''c'']
      else [])"

text \<open>The states of a session that has one image, and of one that has three.\<close>

definition oneCollected :: state where
  "oneCollected = middleware steady srcs alice oneImage (snd (command alice None initial))"


section \<open>Properties of the HTML\<close>

lemma join_empty_sep: "join [] xs = concat xs"
  by (induction "[]::nat list" xs rule: join.induct) simp_all

text \<open>
  Claim C10. For every list of URLs and every direction the document is the fixed
  skeleton, with \<open>row\<close> for the horizontal token and \<open>column\<close> for anything else, around the
  \<open>img\<close> tags of the URLs in list order, each URL copied as it is. Nothing is escaped: the
  one URL \<open>a"><img src="b\<close> gives the very document of the two URLs \<open>a\<close> and \<open>b\<close>.
\<close>

theorem generateHtmlForImages_layout:
  "generateHtmlForImages imageUrls dir =
     ascii (''<html><head>\<newline>      <style>\<newline>        body {\<newline>          margin: 0;\<newline>          display: flex;\<newline>          flex-direction: ''
            @ (if dir = horizontal then ''row'' else ''column'')
            @ '';\<newline>        }\<newline>        img {\<newline>          display: block;\<newline>        }\<newline>      </style>\<newline>    </head><body>'')
     @ concat (map (\<lambda>url. ascii ''<img src=\"'' @ url @ ascii ''\">'') imageUrls)
     @ ascii ''</body></html>''
   \<and> generateHtmlForImages [ascii ''a\"><img src=\"b''] dir
       = generateHtmlForImages [ascii ''a'', ascii ''b''] dir"
  by (simp add: generateHtmlForImages_def style_def join_empty_sep imgTag_def [abs_def] ascii_def)

section \<open>Properties of the retry loop\<close>

lemma sleeps_append: "sleeps (xs @ ys) = sleeps xs @ sleeps ys"
  by (induction xs rule: sleeps.induct) simp_all

lemma tryBlock_made: "attemptsMade (fst (tryBlock a html i)) = 1"
  by (cases "(a, html, i)" rule: tryBlock.cases) (auto simp: attemptsMade_def)

lemma tryBlock_sleeps: "sleeps (fst (tryBlock a html i)) = []"
  by (cases "(a, html, i)" rule: tryBlock.cases) auto

lemma tryBlock_hd: "\<exists>rest. fst (tryBlock a html i) = PageRequested i # rest"
  by (cases "(a, html, i)" rule: tryBlock.cases) auto

lemma attempts_exhausted: "maxRetries \<le> k \<Longrightarrow> attempts engine html k = ([], Inl maxRetriesMsg)"
  by (simp add: attempts.simps)

lemma attempts_captured:
  "k < maxRetries \<Longrightarrow> engine k = Captured b \<Longrightarrow>
   attempts engine html k = (fst (tryBlock (engine k) html k), Inr b)"
  by (subst attempts.simps) simp

lemma attempts_fatal:
  "k < maxRetries \<Longrightarrow> failure (engine k) = Some m \<Longrightarrow> \<not> transient (engine k) \<Longrightarrow>
   attempts engine html k = (fst (tryBlock (engine k) html k), Inl m)"
  by (subst attempts.simps)
     (cases "(engine k, html, k)" rule: tryBlock.cases; simp add: failure_def transient_def)

lemma attempts_transient:
  "k < maxRetries \<Longrightarrow> transient (engine k) \<Longrightarrow>
   attempts engine html k =
     (fst (tryBlock (engine k) html k) @ [Slept retryDelayMs] @ fst (attempts engine html (Suc k)),
      snd (attempts engine html (Suc k)))"
  by (subst attempts.simps)
     (cases "(engine k, html, k)" rule: tryBlock.cases;
      simp add: failure_def transient_def split: prod.splits)

lemma attemptsMade_Slept: "attemptsMade (Slept ms # evs) = attemptsMade evs"
  by (simp add: attemptsMade_def)

lemma attemptsMade_append: "attemptsMade (xs @ ys) = attemptsMade xs + attemptsMade ys"
  by (simp add: attemptsMade_def)

lemma attempts_cases:
  assumes "k < maxRetries"
  obtains (captured) b where "engine k = Captured b"
  | (fatal) m where "failure (engine k) = Some m" "\<not> transient (engine k)"
  | (retry) "transient (engine k)"
  by (cases "engine k") (auto simp: failure_def transient_def)

lemma attempts_bound: "attemptsMade (fst (attempts engine html k)) \<le> maxRetries - k"
proof (induction "maxRetries - k" arbitrary: k)
  case 0
  then show ?case by (simp add: attempts_exhausted attemptsMade_def)
next
  case (Suc n)
  then have k: "k < maxRetries" and n: "n = maxRetries - Suc k" by simp_all
  from k show ?case
  proof (cases rule: attempts_cases [where engine = engine])
    case (captured b)
    with k show ?thesis by (simp add: attempts_captured tryBlock_made del: tryBlock.simps)
  next
    case (fatal m)
    with k show ?thesis by (simp add: attempts_fatal tryBlock_made)
  next
    case retry
    with k Suc.hyps(1) [OF n] show ?thesis
      by (simp add: attempts_transient attemptsMade_append attemptsMade_Slept tryBlock_made)
  qed
qed

lemma attempts_skip:
  assumes "\<forall>j<i. k \<le> j \<longrightarrow> transient (engine j)" "k \<le> i" "i \<le> maxRetries"
  shows "snd (attempts engine html k) = snd (attempts engine html i)
       \<and> attemptsMade (fst (attempts engine html k)) + k = attemptsMade (fst (attempts engine html i)) + i
       \<and> sleeps (fst (attempts engine html k)) = replicate (i - k) retryDelayMs @ sleeps (fst (attempts engine html i))"
  using assms
proof (induction "i - k" arbitrary: k)
  case 0
  then show ?case by simp
next
  case (Suc n)
  then have k: "k < maxRetries" "k < i" and n: "n = i - Suc k" by simp_all
  have t: "transient (engine k)" using Suc.prems k by simp
  have "\<forall>j<i. Suc k \<le> j \<longrightarrow> transient (engine j)" using Suc.prems by simp
  from Suc.hyps(1) [OF n this] k Suc.prems(3)
  have IH: "snd (attempts engine html (Suc k)) = snd (attempts engine html i)"
    "attemptsMade (fst (attempts engine html (Suc k))) + Suc k = attemptsMade (fst (attempts engine html i)) + i"
    "sleeps (fst (attempts engine html (Suc k))) = replicate (i - Suc k) retryDelayMs @ sleeps (fst (attempts engine html i))"
    by simp_all
  have "i - k = Suc (i - Suc k)" using k by simp
  then show ?case using k t IH
    by (simp add: attempts_transient attemptsMade_append attemptsMade_Slept tryBlock_made sleeps_append tryBlock_sleeps)
qed

lemma attempts_from_start:
  assumes "\<forall>j<i. transient (engine j)" "i \<le> maxRetries"
  shows "snd (attempts engine html 0) = snd (attempts engine html i)"
    "attemptsMade (fst (attempts engine html 0)) = attemptsMade (fst (attempts engine html i)) + i"
    "sleeps (fst (attempts engine html 0)) = replicate i retryDelayMs @ sleeps (fst (attempts engine html i))"
  using attempts_skip [of i 0 engine html] assms by simp_all

lemma attempts_hd:
  assumes "k < maxRetries"
  shows "\<exists>rest. fst (attempts engine html k) = PageRequested k # rest"
  using assms
proof (cases rule: attempts_cases [where engine = engine])
  case (captured b)
  with assms show ?thesis by (simp add: attempts_captured)
next
  case (fatal m)
  with assms tryBlock_hd [of "engine k" html k] show ?thesis
    by (auto simp add: attempts_fatal)
next
  case retry
  with assms tryBlock_hd [of "engine k" html k] show ?thesis
    by (auto simp add: attempts_transient)
qed

lemma attempts_suffix:
  assumes "\<forall>j<i. k \<le> j \<longrightarrow> transient (engine j)" "k \<le> i" "i \<le> maxRetries"
  shows "suffix (fst (attempts engine html i)) (fst (attempts engine html k))"
  using assms
proof (induction "i - k" arbitrary: k)
  case 0
  then show ?case by simp
next
  case (Suc n)
  then have k: "k < maxRetries" "k < i" and n: "n = i - Suc k" by simp_all
  have t: "transient (engine k)" using Suc.prems k by simp
  have "\<forall>j<i. Suc k \<le> j \<longrightarrow> transient (engine j)" using Suc.prems by simp
  from Suc.hyps(1) [OF n this] k Suc.prems(3)
  have "suffix (fst (attempts engine html i)) (fst (attempts engine html (Suc k)))" by simp
  then show ?case using k t
    by (simp add: attempts_transient suffix_appendI suffix_ConsI)
qed

lemma attempts_retry_order:
  assumes "\<forall>j\<le>i. transient (engine j)" "Suc i < maxRetries"
  shows "sublist [Slept retryDelayMs, PageRequested (Suc i)] (fst (attempts engine html 0))"
proof -
  obtain rest where "fst (attempts engine html (Suc i)) = PageRequested (Suc i) # rest"
    using attempts_hd [OF assms(2)] by blast
  then have "fst (attempts engine html i) =
      fst (tryBlock (engine i) html i) @ [Slept retryDelayMs, PageRequested (Suc i)] @ rest"
    using assms by (simp add: attempts_transient)
  then have "sublist [Slept retryDelayMs, PageRequested (Suc i)] (fst (attempts engine html i))"
    unfolding sublist_def by blast
  moreover have "suffix (fst (attempts engine html i)) (fst (attempts engine html 0))"
    using attempts_suffix [of i 0 engine html] assms by simp
  ultimately show ?thesis
    by (meson sublist_order.order.trans suffix_imp_sublist)
qed


text \<open>
  Claim C4. A call makes at most 3 attempts. When the attempts before attempt \<open>i\<close> all
  failed with a message that includes \<open>Connection closed\<close>: a failure of attempt \<open>i\<close> with
  any other message is the error of the call, and no further attempt is made; a capture
  is the result of the call; after each of the \<open>i\<close> failures the call slept 1000 ms; and
  when attempt \<open>i\<close> fails in that way too and is not the last one, the sleep of 1000 ms is
  followed at once by the request for the next page. When all 3 attempts fail in that way
  the error of the call is the terminal one.
\<close>

theorem stitchImages_retry_policy:
  "attemptsMade (fst (stitchImages engine imageUrls dir)) \<le> 3
   \<and> (\<forall>i<3. (\<forall>j<i. transient (engine j)) \<longrightarrow>
          (\<forall>msg. failure (engine i) = Some msg \<and> \<not> transient (engine i) \<longrightarrow>
               snd (stitchImages engine imageUrls dir) = Inl msg
             \<and> attemptsMade (fst (stitchImages engine imageUrls dir)) = Suc i
             \<and> sleeps (fst (stitchImages engine imageUrls dir)) = replicate i 1000)
        \<and> (\<forall>screenshot. engine i = Captured screenshot \<longrightarrow>
               snd (stitchImages engine imageUrls dir) = Inr screenshot
             \<and> attemptsMade (fst (stitchImages engine imageUrls dir)) = Suc i
             \<and> sleeps (fst (stitchImages engine imageUrls dir)) = replicate i 1000)
        \<and> (transient (engine i) \<and> Suc i < 3 \<longrightarrow>
               sublist [Slept 1000, PageRequested (Suc i)]
                 (fst (stitchImages engine imageUrls dir))))
   \<and> ((\<forall>j<3. transient (engine j)) \<longrightarrow>
          snd (stitchImages engine imageUrls dir) = Inl maxRetriesMsg
        \<and> attemptsMade (fst (stitchImages engine imageUrls dir)) = 3
        \<and> sleeps (fst (stitchImages engine imageUrls dir)) = replicate 3 1000)"
proof -
  define html where "html = generateHtmlForImages imageUrls dir"
  have run: "stitchImages engine imageUrls dir = attempts engine html 0"
    by (simp add: stitchImages_def html_def)
  have bound: "attemptsMade (fst (attempts engine html 0)) \<le> 3"
    using attempts_bound [of engine html 0] by (simp add: maxRetries_def)
  have settle: "(\<forall>msg. failure (engine i) = Some msg \<and> \<not> transient (engine i) \<longrightarrow>
               snd (attempts engine html 0) = Inl msg
             \<and> attemptsMade (fst (attempts engine html 0)) = Suc i
             \<and> sleeps (fst (attempts engine html 0)) = replicate i 1000)
        \<and> (\<forall>screenshot. engine i = Captured screenshot \<longrightarrow>
               snd (attempts engine html 0) = Inr screenshot
             \<and> attemptsMade (fst (attempts engine html 0)) = Suc i
             \<and> sleeps (fst (attempts engine html 0)) = replicate i 1000)
        \<and> (transient (engine i) \<and> Suc i < 3 \<longrightarrow>
               sublist [Slept 1000, PageRequested (Suc i)] (fst (attempts engine html 0)))"
    if i: "i < 3" and before: "\<forall>j<i. transient (engine j)" for i
  proof -
    have im: "i < maxRetries" "i \<le> maxRetries" using i by (simp_all add: maxRetries_def)
    note start = attempts_from_start [OF before im(2), of html]
    have "snd (attempts engine html 0) = Inl msg
             \<and> attemptsMade (fst (attempts engine html 0)) = Suc i
             \<and> sleeps (fst (attempts engine html 0)) = replicate i 1000"
      if "failure (engine i) = Some msg" "\<not> transient (engine i)" for msg
      using start that im
      by (simp add: attempts_fatal tryBlock_made tryBlock_sleeps retryDelayMs_def)
    moreover have "snd (attempts engine html 0) = Inr screenshot
             \<and> attemptsMade (fst (attempts engine html 0)) = Suc i
             \<and> sleeps (fst (attempts engine html 0)) = replicate i 1000"
      if "engine i = Captured screenshot" for screenshot
      using start that im tryBlock_made [of "engine i" html i] tryBlock_sleeps [of "engine i" html i]
      by (simp add: attempts_captured retryDelayMs_def del: tryBlock.simps)
    moreover have "sublist [Slept 1000, PageRequested (Suc i)] (fst (attempts engine html 0))"
      if "transient (engine i)" "Suc i < 3"
    proof -
      have "\<forall>j\<le>i. transient (engine j)" using before that(1) by (simp add: le_less)
      then show ?thesis
        using attempts_retry_order [of i engine html] that(2)
        by (simp add: maxRetries_def retryDelayMs_def)
    qed
    ultimately show ?thesis by blast
  qed
  have exhausted: "snd (attempts engine html 0) = Inl maxRetriesMsg
        \<and> attemptsMade (fst (attempts engine html 0)) = 3
        \<and> sleeps (fst (attempts engine html 0)) = replicate 3 1000"
    if "\<forall>j<3. transient (engine j)"
    using attempts_from_start [of 3 engine html] that
    by (simp add: maxRetries_def attempts_exhausted attemptsMade_def retryDelayMs_def)
  show ?thesis
    unfolding run using bound settle exhausted by blast
qed

lemma flaky_transient: "transient (flaky 0) \<and> transient (flaky 1)"
  by (simp add: flaky_def transient_def failure_def js_includes_def connectionClosedMsg_def
      ascii_def sublist_code prefix_code)

lemma offline_transient: "transient (offline i)"
  by (simp add: offline_def transient_def failure_def js_includes_def connectionClosedMsg_def)

lemma broken_fatal: "failure (broken i) = Some (ascii ''Timeout'') \<and> \<not> transient (broken i)"
  by (simp add: broken_def transient_def failure_def js_includes_def connectionClosedMsg_def
      ascii_def sublist_code prefix_code)

theorem stitchImages_retry_policy_witness:
  "snd (stitchImages flaky [ascii ''a'', ascii ''b''] vertical) = Inr [137, 80, 78, 71]
   \<and> attemptsMade (fst (stitchImages flaky [ascii ''a'', ascii ''b''] vertical)) = 3
   \<and> sleeps (fst (stitchImages flaky [ascii ''a'', ascii ''b''] vertical)) = [1000, 1000]
   \<and> snd (stitchImages offline [] vertical) = Inl maxRetriesMsg
   \<and> snd (stitchImages broken [] vertical) = Inl (ascii ''Timeout'')
   \<and> attemptsMade (fst (stitchImages broken [] vertical)) = 1"
proof -
  have two: "(2::nat) < 3" and zero: "(0::nat) < 3" by simp_all
  have t: "\<forall>j<2. transient (flaky j)"
    using flaky_transient by (simp add: numeral_2_eq_2 less_Suc_eq)
  have c: "flaky 2 = Captured [137, 80, 78, 71]" by (simp add: flaky_def)
  have a: "\<forall>j<3. transient (offline j)"
    by (simp add: offline_transient)
  have "snd (stitchImages flaky [ascii ''a'', ascii ''b''] vertical) = Inr [137, 80, 78, 71]
     \<and> attemptsMade (fst (stitchImages flaky [ascii ''a'', ascii ''b''] vertical)) = Suc 2
     \<and> sleeps (fst (stitchImages flaky [ascii ''a'', ascii ''b''] vertical)) = replicate 2 1000"
    using stitchImages_retry_policy [of flaky "[ascii ''a'', ascii ''b'']" vertical] two t c
    by blast
  moreover have "snd (stitchImages offline [] vertical) = Inl maxRetriesMsg"
    using stitchImages_retry_policy [of offline "[]" vertical] a
    by blast
  moreover have "snd (stitchImages broken [] vertical) = Inl (ascii ''Timeout'')
     \<and> attemptsMade (fst (stitchImages broken [] vertical)) = Suc 0"
    using stitchImages_retry_policy [of broken "[]" vertical] broken_fatal [of 0] zero
    by (metis not_less_zero)
  ultimately show ?thesis
    by (simp add: numeral_2_eq_2)
qed

text \<open>
  Claim C5 asks that the page of an attempt is closed before the attempt ends, also when
  it fails. The source calls \<open>page.close()\<close> only after the screenshot, inside the \<open>try\<close>
  block, and its \<open>catch\<close> block closes nothing. With the engine \<open>flaky\<close> the pages of the
  attempts 0 and 1 are opened and never closed; only the page of the attempt that
  succeeds is closed.
\<close>

theorem failed_attempt_leaves_page_open:
  "PageOpened 0 \<in> set (fst (stitchImages flaky [ascii ''a'', ascii ''b''] vertical))
   \<and> PageClosed 0 \<notin> set (fst (stitchImages flaky [ascii ''a'', ascii ''b''] vertical))
   \<and> PageOpened 1 \<in> set (fst (stitchImages flaky [ascii ''a'', ascii ''b''] vertical))
   \<and> PageClosed 1 \<notin> set (fst (stitchImages flaky [ascii ''a'', ascii ''b''] vertical))
   \<and> PageClosed 2 \<in> set (fst (stitchImages flaky [ascii ''a'', ascii ''b''] vertical))
   \<and> snd (stitchImages flaky [ascii ''a'', ascii ''b''] vertical) = Inr [137, 80, 78, 71]"
proof -
  have m: "(0::nat) < maxRetries" "Suc 0 < maxRetries" "Suc (Suc 0) < maxRetries"
    by (simp_all add: maxRetries_def)
  have f: "flaky 0 = CallRejected Screenshot (ascii ''Protocol error: Connection closed.'')"
    "flaky (Suc 0) = CallRejected Screenshot (ascii ''Protocol error: Connection closed.'')"
    "flaky (Suc (Suc 0)) = Captured [137, 80, 78, 71]"
    by (simp_all add: flaky_def)
  have t: "transient (flaky 0)" "transient (flaky (Suc 0))"
    using flaky_transient by simp_all
  show ?thesis
    unfolding stitchImages_def
    by (simp add: attempts_transient [of 0 flaky, OF m(1) t(1)]
        attempts_transient [of "Suc 0" flaky, OF m(2) t(2)]
        attempts_captured [of "Suc (Suc 0)" flaky, OF m(3) f(3)] f numeral_2_eq_2)
qed

section \<open>What one call does\<close>












lemma receive_eq:
  assumes "userImageData s u = Some (r, c)"
  shows "middleware_receive select u content s =
     Some (s\<lparr>objects := (objects s)(r \<mapsto> c\<lparr>images := images c @ select content\<rparr>),
             sent := sent s @ (if select content = [] then []
                               else [(u, Text (statusMsg (length (images c @ select content))))])\<rparr>)"
  using assms by (simp add: middleware_receive_def Let_def send_def)

lemma middleware_collect:
  assumes "userImageData s u = Some (r, c)" "trim content \<noteq> doneKeyword"
  shows "middleware engine select u content s =
     s\<lparr>objects := (objects s)(r \<mapsto> c\<lparr>images := images c @ select content\<rparr>),
       sent := sent s @ (if select content = [] then []
                         else [(u, Text (statusMsg (length (images c @ select content))))]),
       scheduled := (case timeout s u of None \<Rightarrow> scheduled s
                     | Some t \<Rightarrow> (scheduled s)(t := None))(nextTimer s \<mapsto> (u, 10000)),
       nextTimer := Suc (nextTimer s),
       timeout := (timeout s)(u \<mapsto> nextTimer s)\<rparr>"
  using assms
  by (simp add: middleware_def receive_eq middleware_schedule_def setTimeout_def clearTimeout_def
      split: option.splits)

lemma command_eq:
  "command u None s =
     (promptMsg,
      s\<lparr>objects := (objects s)(nextObject s \<mapsto> \<lparr>direction = vertical, images = [], processing = None\<rparr>),
        nextObject := Suc (nextObject s),
        userImages := (userImages s)(u \<mapsto> nextObject s)\<rparr>)"
  by (simp add: command_def)






section \<open>The concrete states\<close>

lemma trim_oneImage: "trim oneImage \<noteq> doneKeyword"
  by (simp add: trim_def oneImage_def ascii_def isWhite_def doneKeyword_def)


lemma srcs_oneImage: "srcs oneImage = [ascii ''a'']"
  by (simp add: srcs_def)






lemma started:
  "userImageData (snd (command alice None initial)) alice
     = Some (0, \<lparr>direction = vertical, images = [], processing = None\<rparr>)"
  by (simp add: command_eq initial_def userImageData_def)

lemma oneCollected_eq:
  "oneCollected =
     \<lparr>objects = [0 \<mapsto> \<lparr>direction = vertical, images = [ascii ''a''], processing = None\<rparr>],
      nextObject = 1, userImages = [alice \<mapsto> 0], timeout = [alice \<mapsto> 0],
      scheduled = [0 \<mapsto> (alice, 10000)], nextTimer = 1,
      sent = [(alice, Text (statusMsg 1))], stitched = []\<rparr>"
  unfolding oneCollected_def middleware_collect [OF started trim_oneImage]
  by (simp add: command_eq initial_def srcs_oneImage)




section \<open>The command\<close>

text \<open>
  Claim C6, as the code has it. With no direction or one of the two tokens the command
  returns the confirmation and puts a new object under the user's key, with the chosen
  direction, no images and no flag, whatever was there before. It leaves the timer table
  and the scheduled callbacks as they are, and sends and stitches nothing itself.
\<close>

theorem command_replaces_session:
  assumes "arg = None \<or> arg = Some horizontal \<or> arg = Some vertical"
  shows "fst (command u arg s) = promptMsg
     \<and> userImageData (snd (command u arg s)) u
         = Some (nextObject s,
                 \<lparr>direction = (case arg of None \<Rightarrow> vertical | Some d \<Rightarrow> d), images = [],
                  processing = None\<rparr>)
     \<and> timeout (snd (command u arg s)) = timeout s
     \<and> scheduled (snd (command u arg s)) = scheduled s
     \<and> sent (snd (command u arg s)) = sent s
     \<and> stitched (snd (command u arg s)) = stitched s"
  using assms by (auto simp add: command_def userImageData_def)

theorem command_replaces_session_witness:
  "fst (command alice (Some horizontal) oneCollected) = promptMsg
   \<and> userImageData (snd (command alice (Some horizontal) oneCollected)) alice
       = Some (1, \<lparr>direction = horizontal, images = [], processing = None\<rparr>)
   \<and> timeout (snd (command alice (Some horizontal) oneCollected)) alice = Some 0"
  using command_replaces_session [of "Some horizontal" alice oneCollected]
  by (simp add: oneCollected_eq)

text \<open>
  Claim C6 as stated says that the command abandons the pending timer of the session it
  replaces. It does not: after one image the timer 0 of the user is scheduled, the command
  with the horizontal token leaves it scheduled and in the table, and when it runs out it
  enters the stitching of the new session, which has no image, and the notice asking for
  two images is sent.
\<close>

theorem command_leaves_timer_pending:
  "scheduled (snd (command alice (Some horizontal) oneCollected)) 0 = Some (alice, 10000)
   \<and> timeout (snd (command alice (Some horizontal) oneCollected)) alice = Some 0
   \<and> snd (expire 0 (snd (command alice (Some horizontal) oneCollected))) = AwaitNotice 1
   \<and> sent (fst (expire 0 (snd (command alice (Some horizontal) oneCollected))))
       = [(alice, Text (statusMsg 1)), (alice, Text needTwoMsg)]"
  by (simp add: command_def oneCollected_eq expire_def stitchAndSendImages_enter_def
      userImageData_def send_def horizontal_def vertical_def)

section \<open>Collecting images\<close>



section \<open>Finalizing\<close>












end
